theory Spec2Isabelle
  imports Complex_Main
begin

section \<open>Python values and the operations the controllers apply to them\<close>

text \<open>
  Both controller processes (\<^verbatim>\<open>app.py\<close>, the main one, and \<^verbatim>\<open>backup.py\<close>, the hot standby)
  keep the presentation state in a global dictionary \<^verbatim>\<open>STATE\<close> and store into it whatever
  \<^verbatim>\<open>json.loads\<close> returned, without checking its type. The values are therefore modelled
  as JSON values. Python's \<^verbatim>\<open>float\<close> is idealised as \<^typ>\<open>real\<close> (no rounding, no NaN);
  a decoded JSON object is an association list read with \<^const>\<open>map_of\<close>.
\<close>

datatype json =
    JNull
  | JBool bool
  | JInt int
  | JFloat real
  | JStr string
  | JArr "json list"
  | JObj "(string \<times> json) list"

datatype py_error = TypeError | KeyError | DecodeError | RequestException

text \<open>\<^verbatim>\<open>s.startswith(p)\<close> and \<^verbatim>\<open>k in s\<close> for two strings.\<close>

definition startswith :: "string \<Rightarrow> string \<Rightarrow> bool" where
  "startswith s p = (take (length p) s = p)"

fun is_substring :: "string \<Rightarrow> string \<Rightarrow> bool" where
  "is_substring k [] = (k = [])"
| "is_substring k (c # cs) = (startswith (c # cs) k \<or> is_substring k cs)"

text \<open>
  \<^verbatim>\<open>k in payload\<close> for a string literal \<^verbatim>\<open>k\<close>: key membership for a dict, element
  membership for a list, substring test for a string, and a TypeError for
  \<^verbatim>\<open>None\<close>, booleans and numbers (they are not iterable).
\<close>

fun py_in :: "string \<Rightarrow> json \<Rightarrow> py_error + bool" where
  "py_in k (JObj kvs) = Inr (k \<in> set (map fst kvs))"
| "py_in k (JArr xs) = Inr (JStr k \<in> set xs)"
| "py_in k (JStr s) = Inr (is_substring k s)"
| "py_in k JNull = Inl TypeError"
| "py_in k (JBool b) = Inl TypeError"
| "py_in k (JInt i) = Inl TypeError"
| "py_in k (JFloat r) = Inl TypeError"

text \<open>
  \<^verbatim>\<open>payload[k]\<close> for a string literal \<^verbatim>\<open>k\<close>: the value of a dict (KeyError when the key
  is missing); a list or a string wants an integer index and every other value is not
  subscriptable, so they raise TypeError.
\<close>

fun py_getitem :: "json \<Rightarrow> string \<Rightarrow> py_error + json" where
  "py_getitem (JObj kvs) k = (case map_of kvs k of None \<Rightarrow> Inl KeyError | Some v \<Rightarrow> Inr v)"
| "py_getitem (JArr xs) k = Inl TypeError"
| "py_getitem (JStr s) k = Inl TypeError"
| "py_getitem JNull k = Inl TypeError"
| "py_getitem (JBool b) k = Inl TypeError"
| "py_getitem (JInt i) k = Inl TypeError"
| "py_getitem (JFloat r) k = Inl TypeError"

text \<open>Truth value of an object in a condition (\<^verbatim>\<open>if x:\<close>).\<close>

fun py_bool :: "json \<Rightarrow> bool" where
  "py_bool JNull = False"
| "py_bool (JBool b) = b"
| "py_bool (JInt i) = (i \<noteq> 0)"
| "py_bool (JFloat r) = (r \<noteq> 0)"
| "py_bool (JStr s) = (s \<noteq> [])"
| "py_bool (JArr xs) = (xs \<noteq> [])"
| "py_bool (JObj kvs) = (kvs \<noteq> [])"

text \<open>The numeric value of a number; \<^verbatim>\<open>bool\<close> is a subclass of \<^verbatim>\<open>int\<close>.\<close>

fun num_of :: "json \<Rightarrow> real option" where
  "num_of (JBool b) = Some (if b then 1 else 0)"
| "num_of (JInt i) = Some (of_int i)"
| "num_of (JFloat r) = Some r"
| "num_of JNull = None"
| "num_of (JStr s) = None"
| "num_of (JArr xs) = None"
| "num_of (JObj kvs) = None"

text \<open>
  \<^verbatim>\<open>x + n\<close> for an integer literal \<^verbatim>\<open>n\<close> (also \<^verbatim>\<open>x += 1\<close> and \<^verbatim>\<open>x -= 1\<close>, with
  \<^verbatim>\<open>n = -1\<close>): an int for an int or a bool, a float for a float, a TypeError otherwise.
\<close>

fun py_add_int :: "json \<Rightarrow> int \<Rightarrow> py_error + json" where
  "py_add_int (JInt i) n = Inr (JInt (i + n))"
| "py_add_int (JBool b) n = Inr (JInt ((if b then 1 else 0) + n))"
| "py_add_int (JFloat r) n = Inr (JFloat (r + of_int n))"
| "py_add_int JNull n = Inl TypeError"
| "py_add_int (JStr s) n = Inl TypeError"
| "py_add_int (JArr xs) n = Inl TypeError"
| "py_add_int (JObj kvs) n = Inl TypeError"

text \<open>\<^verbatim>\<open>t + x\<close> for a float \<^verbatim>\<open>t\<close> (a reading of \<^verbatim>\<open>time.time()\<close>).\<close>

definition py_float_add :: "real \<Rightarrow> json \<Rightarrow> py_error + real" where
  "py_float_add t x = (case num_of x of None \<Rightarrow> Inl TypeError | Some d \<Rightarrow> Inr (t + d))"

text \<open>
  Ordering comparisons. At every place the controllers compare two values one operand
  is known to be a number, and Python orders a number only against a number.
\<close>

definition py_le :: "json \<Rightarrow> json \<Rightarrow> py_error + bool" where
  "py_le a b = (case (num_of a, num_of b) of
                  (Some x, Some y) \<Rightarrow> Inr (x \<le> y)
                | _ \<Rightarrow> Inl TypeError)"

definition py_lt :: "json \<Rightarrow> json \<Rightarrow> py_error + bool" where
  "py_lt a b = (case (num_of a, num_of b) of
                  (Some x, Some y) \<Rightarrow> Inr (x < y)
                | _ \<Rightarrow> Inl TypeError)"

text \<open>\<^verbatim>\<open>int(x)\<close> of a float: truncation towards zero.\<close>

definition py_int :: "real \<Rightarrow> int" where
  "py_int x = (if 0 \<le> x then \<lfloor>x\<rfloor> else \<lceil>x\<rceil>)"

section \<open>The presentation state\<close>

text \<open>
  The dictionary \<^verbatim>\<open>STATE\<close> of \<^verbatim>\<open>app.py\<close>. \<^verbatim>\<open>timer_end_time\<close> is only ever assigned
  \<^verbatim>\<open>None\<close> or a float; \<^verbatim>\<open>device_status\<close> is a dictionary from role to status.
\<close>

record pstate =
  current_presenter :: json
  current_topic :: json
  timer_seconds :: json
  timer_running :: json
  timer_end_time :: "real option"
  announcement :: json
  announcement_visible :: json
  current_slide :: json
  total_slides :: json
  device_status :: "string \<rightharpoonup> string"
  system_health :: json
  connected_clients :: nat

text \<open>\<^verbatim>\<open>backup.py\<close> keeps the same dictionary with one more key.\<close>

record bstate = pstate +
  main_last_heartbeat :: real

section \<open>PowerPointController (the same class in app.py and backup.py)\<close>

text \<open>
  Each method takes the controller's \<^verbatim>\<open>connected\<close> flag (\<open>conn\<close>) and the state, and returns its
  boolean result with the state it leaves. An exception inside the \<^verbatim>\<open>try\<close> block is
  caught by the method, which then returns \<^verbatim>\<open>False\<close>; what was stored before the raise stays.
\<close>

definition next_slide :: "bool \<Rightarrow> 'a pstate_scheme \<Rightarrow> bool \<times> 'a pstate_scheme" where
  "next_slide conn s =
     (if \<not> conn then (False, s)
      else case py_add_int (current_slide s) 1 of
             Inl e \<Rightarrow> (False, s)
           | Inr c \<Rightarrow>
               (let s1 = s\<lparr>current_slide := c\<rparr> in
                case py_lt (total_slides s1) (current_slide s1) of
                  Inl e \<Rightarrow> (False, s1)
                | Inr gt \<Rightarrow> (True, if gt then s1\<lparr>current_slide := total_slides s1\<rparr> else s1)))"

definition previous_slide :: "bool \<Rightarrow> 'a pstate_scheme \<Rightarrow> bool \<times> 'a pstate_scheme" where
  "previous_slide conn s =
     (if \<not> conn then (False, s)
      else case py_add_int (current_slide s) (- 1) of
             Inl e \<Rightarrow> (False, s)
           | Inr c \<Rightarrow>
               (let s1 = s\<lparr>current_slide := c\<rparr> in
                case py_lt (current_slide s1) (JInt 1) of
                  Inl e \<Rightarrow> (False, s1)
                | Inr lt \<Rightarrow> (True, if lt then s1\<lparr>current_slide := JInt 1\<rparr> else s1)))"

definition goto_slide :: "bool \<Rightarrow> json \<Rightarrow> 'a pstate_scheme \<Rightarrow> bool \<times> 'a pstate_scheme" where
  "goto_slide conn slide_number s =
     (if \<not> conn then (False, s)
      else case py_le (JInt 1) slide_number of
             Inl e \<Rightarrow> (False, s)
           | Inr False \<Rightarrow> (False, s)
           | Inr True \<Rightarrow>
               (case py_le slide_number (total_slides s) of
                  Inl e \<Rightarrow> (False, s)
                | Inr False \<Rightarrow> (False, s)
                | Inr True \<Rightarrow> (True, s\<lparr>current_slide := slide_number\<rparr>)))"

section \<open>Statements shared by the two message handlers\<close>

text \<open>
  A block of statements maps the state to the state it leaves, together with the
  exception that ended it early, if any. Everything stored before a raise stays stored:
  \<^verbatim>\<open>STATE\<close> is mutated in place and the handlers only log the exception.
\<close>

type_synonym 's stmt = "'s \<Rightarrow> py_error option \<times> 's"

definition py_seq :: "'s stmt \<Rightarrow> 's stmt \<Rightarrow> 's stmt" where
  "py_seq f g s = (case f s of (Some e, s1) \<Rightarrow> (Some e, s1) | (None, s1) \<Rightarrow> g s1)"

text \<open>\<^verbatim>\<open>if k in payload: STATE[...] = payload[k]\<close>, the store given as \<open>upd\<close>.\<close>

definition store_if_present :: "string \<Rightarrow> json \<Rightarrow> (json \<Rightarrow> 's \<Rightarrow> 's) \<Rightarrow> 's stmt" where
  "store_if_present k payload upd s =
     (case py_in k payload of
        Inl e \<Rightarrow> (Some e, s)
      | Inr False \<Rightarrow> (None, s)
      | Inr True \<Rightarrow>
          (case py_getitem payload k of
             Inl e \<Rightarrow> (Some e, s)
           | Inr v \<Rightarrow> (None, upd v s)))"

text \<open>\<^verbatim>\<open>k in payload and payload[k] == lit\<close> for two string literals.\<close>

definition key_is :: "string \<Rightarrow> string \<Rightarrow> json \<Rightarrow> py_error + bool" where
  "key_is k lit payload =
     (case py_in k payload of
        Inl e \<Rightarrow> Inl e
      | Inr False \<Rightarrow> Inr False
      | Inr True \<Rightarrow>
          (case py_getitem payload k of
             Inl e \<Rightarrow> Inl e
           | Inr v \<Rightarrow> Inr (v = JStr lit)))"

definition mqtt_topic_prefix :: string where
  "mqtt_topic_prefix = ''conference/''"

text \<open>The timer topic (app.py 236-244, backup.py 188-196).\<close>

definition timer_running_stmt :: "real \<Rightarrow> json \<Rightarrow> 'a pstate_scheme stmt" where
  "timer_running_stmt now payload s =
     (case py_in ''running'' payload of
        Inl e \<Rightarrow> (Some e, s)
      | Inr False \<Rightarrow> (None, s)
      | Inr True \<Rightarrow>
          (case py_getitem payload ''running'' of
             Inl e \<Rightarrow> (Some e, s)
           | Inr r \<Rightarrow>
               (let s1 = s\<lparr>timer_running := r\<rparr> in
                if py_bool (timer_running s1) then
                  (case py_float_add now (timer_seconds s1) of
                     Inl e \<Rightarrow> (Some e, s1)
                   | Inr t \<Rightarrow> (None, s1\<lparr>timer_end_time := Some t\<rparr>))
                else (None, s1\<lparr>timer_end_time := None\<rparr>))))"

definition timer_topic :: "real \<Rightarrow> json \<Rightarrow> 'a pstate_scheme stmt" where
  "timer_topic now payload =
     py_seq (store_if_present ''seconds'' payload (\<lambda>v s. s\<lparr>timer_seconds := v\<rparr>))
            (timer_running_stmt now payload)"

text \<open>The presenter topic (app.py 246-250, backup.py 198-202).\<close>

definition presenter_topic :: "json \<Rightarrow> 'a pstate_scheme stmt" where
  "presenter_topic payload =
     py_seq (store_if_present ''name'' payload (\<lambda>v s. s\<lparr>current_presenter := v\<rparr>))
            (store_if_present ''topic'' payload (\<lambda>v s. s\<lparr>current_topic := v\<rparr>))"

text \<open>
  The announcement topic (app.py 252-255, backup.py 204-207): both stores stand under
  the test for the key \<^verbatim>\<open>message\<close>.
\<close>

definition announcement_topic :: "json \<Rightarrow> 'a pstate_scheme stmt" where
  "announcement_topic payload =
     store_if_present ''message'' payload
       (\<lambda>v s. s\<lparr>announcement := v, announcement_visible := JBool True\<rparr>)"

text \<open>
  The slide commands of the control topic, once the handler's guard has passed
  (app.py 265-270, backup.py 218-223). The controller's boolean result is dropped.
\<close>

definition slide_commands :: "bool \<Rightarrow> json \<Rightarrow> 'a pstate_scheme stmt" where
  "slide_commands conn payload s =
     (case py_getitem payload ''command'' of
        Inl e \<Rightarrow> (Some e, s)
      | Inr c \<Rightarrow>
          if c = JStr ''next_slide'' then (None, snd (next_slide conn s))
          else if c = JStr ''previous_slide'' then (None, snd (previous_slide conn s))
          else if c = JStr ''goto_slide'' then
            (case py_in ''slide'' payload of
               Inl e \<Rightarrow> (Some e, s)
             | Inr False \<Rightarrow> (None, s)
             | Inr True \<Rightarrow>
                 (case py_getitem payload ''slide'' of
                    Inl e \<Rightarrow> (Some e, s)
                  | Inr n \<Rightarrow> (None, snd (goto_slide conn n s))))
          else (None, s))"

text \<open>
  The timer lines of \<^verbatim>\<open>update_ui\<close> (app.py 419-422, backup.py 364-367), which run every
  100 ms: the only lines of the method that write to \<^verbatim>\<open>STATE\<close>. The widgets are not
  modelled; the timer label shows \<^verbatim>\<open>STATE["timer_seconds"]\<close> as it is after these lines.
  A deadline of \<^verbatim>\<open>None\<close> or \<^verbatim>\<open>0.0\<close> is false in the condition.
\<close>

definition update_ui :: "real \<Rightarrow> 'a pstate_scheme \<Rightarrow> 'a pstate_scheme" where
  "update_ui now s =
     (case timer_end_time s of
        None \<Rightarrow> s
      | Some t \<Rightarrow>
          if py_bool (timer_running s) \<and> t \<noteq> 0
          then s\<lparr>timer_seconds := JInt (max 0 (py_int (t - now)))\<rparr>
          else s)"

section \<open>The main controller (app.py)\<close>

type_synonym mqtt_msg = "string \<times> json"

text \<open>
  The globals of the main process: \<^verbatim>\<open>STATE\<close>, \<^verbatim>\<open>powerpoint.connected\<close>, the list
  \<^verbatim>\<open>websocket_connections\<close> (sessions of any type \<open>'w\<close>) and what was published on the bus.
\<close>

record 'w main_sys =
  app_state :: pstate
  app_ppt_connected :: bool
  websocket_connections :: "'w list"
  app_published :: "mqtt_msg list"

text \<open>
  \<^verbatim>\<open>broadcast_state_update\<close> (app.py 277-293). The \<^verbatim>\<open>for\<close> loop walks the list by position
  while the \<^verbatim>\<open>except\<close> branch removes from the same list: the iterator holds an index
  \<open>i\<close> and stops when it reaches the current length. \<open>fails w\<close> says that
  \<^verbatim>\<open>send_text\<close> raises for session \<open>w\<close>; \<open>sent\<close> collects the sessions the message
  was sent to.
\<close>

function broadcast_loop :: "('w \<Rightarrow> bool) \<Rightarrow> nat \<Rightarrow> 'w list \<Rightarrow> 'w list \<Rightarrow> 'w list \<times> 'w list" where
  "broadcast_loop fails i conns sent =
     (if i < length conns then
        (let w = conns ! i in
         if fails w
         then broadcast_loop fails (i + 1) (if w \<in> set conns then remove1 w conns else conns) sent
         else broadcast_loop fails (i + 1) conns (sent @ [w]))
      else (conns, sent))"
  by pat_completeness auto
termination
  by (relation "measure (\<lambda>(fails, i, conns, sent). length conns - i)")
     (auto simp: length_remove1)

definition broadcast_state_update :: "('w \<Rightarrow> bool) \<Rightarrow> 'w list \<Rightarrow> 'w list \<times> 'w list" where
  "broadcast_state_update fails conns =
     (if conns = [] then (conns, []) else broadcast_loop fails 0 conns [])"

text \<open>The heartbeat topic of the main process (app.py 257-261).\<close>

definition heartbeat_topic_main :: "json \<Rightarrow> 'a pstate_scheme stmt" where
  "heartbeat_topic_main payload s =
     (case key_is ''role'' ''BACKUP'' payload of
        Inl e \<Rightarrow> (Some e, s)
      | Inr True \<Rightarrow> (None, s\<lparr>device_status := (device_status s)(''backup'' \<mapsto> ''ONLINE'')\<rparr>)
      | Inr False \<Rightarrow>
          (case key_is ''role'' ''MODERATOR'' payload of
             Inl e \<Rightarrow> (Some e, s)
           | Inr True \<Rightarrow> (None, s\<lparr>device_status := (device_status s)(''moderator'' \<mapsto> ''ONLINE'')\<rparr>)
           | Inr False \<Rightarrow> (None, s)))"

text \<open>The control topic of the main process (app.py 263-270).\<close>

definition control_topic_main :: "bool \<Rightarrow> json \<Rightarrow> 'a pstate_scheme stmt" where
  "control_topic_main conn payload s =
     (case py_in ''command'' payload of
        Inl e \<Rightarrow> (Some e, s)
      | Inr False \<Rightarrow> (None, s)
      | Inr True \<Rightarrow> slide_commands conn payload s)"

text \<open>
  The \<^verbatim>\<open>if\<close>/\<^verbatim>\<open>elif\<close> chain over the topic (app.py 236-270), for a decoded payload,
  received at time \<open>now\<close>.
\<close>

definition process_main :: "real \<Rightarrow> bool \<Rightarrow> string \<Rightarrow> json \<Rightarrow> pstate stmt" where
  "process_main now conn topic payload s =
     (if startswith topic (mqtt_topic_prefix @ ''timer/'') then timer_topic now payload s
      else if startswith topic (mqtt_topic_prefix @ ''presenter/'') then presenter_topic payload s
      else if startswith topic (mqtt_topic_prefix @ ''announcement/'') then announcement_topic payload s
      else if startswith topic (mqtt_topic_prefix @ ''heartbeat/'') then heartbeat_topic_main payload s
      else if startswith topic (mqtt_topic_prefix @ ''control/'') then control_topic_main conn payload s
      else (None, s))"

text \<open>
  \<^verbatim>\<open>on_mqtt_message\<close> of app.py (229-275). The payload is \<open>None\<close> when
  \<^verbatim>\<open>json.loads(msg.payload.decode())\<close> raises. The broadcast runs only when the processing
  raised nothing; the result is the globals and the sessions that were sent the snapshot.
\<close>

definition on_mqtt_message :: "('w \<Rightarrow> bool) \<Rightarrow> real \<Rightarrow> string \<Rightarrow> json option \<Rightarrow> 'w main_sys \<Rightarrow> 'w main_sys \<times> 'w list" where
  "on_mqtt_message fails now topic raw sys =
     (case raw of
        None \<Rightarrow> (sys, [])
      | Some payload \<Rightarrow>
          (case process_main now (app_ppt_connected sys) topic payload (app_state sys) of
             (Some e, s1) \<Rightarrow> (sys\<lparr>app_state := s1\<rparr>, [])
           | (None, s1) \<Rightarrow>
               (let (conns, sent) = broadcast_state_update fails (websocket_connections sys)
                in (sys\<lparr>app_state := s1, websocket_connections := conns\<rparr>, sent))))"

text \<open>
  The timer buttons (app.py 450-485). In \<^verbatim>\<open>start_timer\<close> the sum raises when
  \<^verbatim>\<open>timer_seconds\<close> is not a number, after \<^verbatim>\<open>timer_running\<close> was stored and before
  anything is published.
\<close>

definition start_timer :: "real \<Rightarrow> 'w main_sys \<Rightarrow> py_error option \<times> 'w main_sys" where
  "start_timer now sys =
     (let s1 = (app_state sys)\<lparr>timer_running := JBool True\<rparr> in
      case py_float_add now (timer_seconds s1) of
        Inl e \<Rightarrow> (Some e, sys\<lparr>app_state := s1\<rparr>)
      | Inr t \<Rightarrow>
          (None, sys\<lparr>app_state := s1\<lparr>timer_end_time := Some t\<rparr>,
                     app_published := app_published sys @
                       [(mqtt_topic_prefix @ ''timer/control'', JObj [(''running'', JBool True)])]\<rparr>))"

definition stop_timer :: "'w main_sys \<Rightarrow> 'w main_sys" where
  "stop_timer sys =
     sys\<lparr>app_state := (app_state sys)\<lparr>timer_running := JBool False, timer_end_time := None\<rparr>,
         app_published := app_published sys @
           [(mqtt_topic_prefix @ ''timer/control'', JObj [(''running'', JBool False)])]\<rparr>"

definition reset_timer :: "'w main_sys \<Rightarrow> 'w main_sys" where
  "reset_timer sys =
     sys\<lparr>app_state := (app_state sys)\<lparr>timer_seconds := JInt 600, timer_running := JBool False,
                                        timer_end_time := None\<rparr>,
         app_published := app_published sys @
           [(mqtt_topic_prefix @ ''timer/control'',
             JObj [(''seconds'', JInt 600), (''running'', JBool False)])]\<rparr>"

text \<open>The dictionary \<^verbatim>\<open>STATE\<close> as app.py creates it (50-72).\<close>

definition initial_state :: pstate where
  "initial_state =
     \<lparr>current_presenter = JStr ''No presenter'',
      current_topic = JStr ''Welcome to the Conference'',
      timer_seconds = JInt 600,
      timer_running = JBool False,
      timer_end_time = None,
      announcement = JStr [],
      announcement_visible = JBool False,
      current_slide = JInt 1,
      total_slides = JInt 30,
      device_status = [''main'' \<mapsto> ''ONLINE'', ''backup'' \<mapsto> ''UNKNOWN'', ''moderator'' \<mapsto> ''UNKNOWN''],
      system_health = JObj [(''cpu'', JInt 0), (''memory'', JInt 0), (''disk'', JInt 0),
                            (''network'', JStr ''OK'')],
      connected_clients = 0\<rparr>"

section \<open>The backup controller (backup.py)\<close>

text \<open>
  The globals of the backup process: \<^verbatim>\<open>STATE\<close>, \<^verbatim>\<open>CONFIG["is_active"]\<close> (false is STANDBY,
  true is ACTIVE), \<^verbatim>\<open>CONFIG["device_id"]\<close>, \<^verbatim>\<open>powerpoint.connected\<close> and what was published
  on the bus. The other entries of \<^verbatim>\<open>CONFIG\<close> are never assigned.
\<close>

record backup_sys =
  bk_state :: bstate
  is_active :: bool
  device_id :: string
  bk_ppt_connected :: bool
  bk_published :: "mqtt_msg list"

definition failover_timeout :: real where
  "failover_timeout = 15"

definition powerpoint_enabled :: bool where
  "powerpoint_enabled = True"

definition failover_message :: "string \<Rightarrow> real \<Rightarrow> string \<Rightarrow> mqtt_msg" where
  "failover_message dev now action =
     (mqtt_topic_prefix @ ''control/failover'',
      JObj [(''device_id'', JStr dev), (''timestamp'', JFloat now), (''action'', JStr action)])"

text \<open>\<^verbatim>\<open>BackupWindow.activate_backup\<close> (382-400) and \<^verbatim>\<open>deactivate_backup\<close> (402-416).\<close>

definition activate_backup :: "real \<Rightarrow> backup_sys \<Rightarrow> backup_sys" where
  "activate_backup now sys =
     (let sys1 = sys\<lparr>is_active := True\<rparr>;
          sys2 = sys1\<lparr>bk_published := bk_published sys1 @
                         [failover_message (device_id sys1) now ''TAKEOVER'']\<rparr>
      in if powerpoint_enabled \<and> \<not> bk_ppt_connected sys2
         then sys2\<lparr>bk_ppt_connected := True\<rparr> else sys2)"

definition deactivate_backup :: "real \<Rightarrow> backup_sys \<Rightarrow> backup_sys" where
  "deactivate_backup now sys =
     (let sys1 = sys\<lparr>is_active := False\<rparr>
      in sys1\<lparr>bk_published := bk_published sys1 @
                  [failover_message (device_id sys1) now ''STANDBY'']\<rparr>)"

text \<open>The heartbeat topic of the backup process (209-214).\<close>

definition heartbeat_topic_backup :: "real \<Rightarrow> json \<Rightarrow> bstate stmt" where
  "heartbeat_topic_backup now payload s =
     (case key_is ''role'' ''MAIN'' payload of
        Inl e \<Rightarrow> (Some e, s)
      | Inr True \<Rightarrow>
          (None, s\<lparr>main_last_heartbeat := now,
                   device_status := (device_status s)(''main'' \<mapsto> ''ONLINE'')\<rparr>)
      | Inr False \<Rightarrow>
          (case key_is ''role'' ''MODERATOR'' payload of
             Inl e \<Rightarrow> (Some e, s)
           | Inr True \<Rightarrow> (None, s\<lparr>device_status := (device_status s)(''moderator'' \<mapsto> ''ONLINE'')\<rparr>)
           | Inr False \<Rightarrow> (None, s)))"

text \<open>
  The control topic of the backup process (216-223): the guard is
  \<^verbatim>\<open>"command" in payload and CONFIG["is_active"]\<close>.
\<close>

definition control_topic_backup :: "bool \<Rightarrow> bool \<Rightarrow> json \<Rightarrow> bstate stmt" where
  "control_topic_backup active conn payload s =
     (case py_in ''command'' payload of
        Inl e \<Rightarrow> (Some e, s)
      | Inr False \<Rightarrow> (None, s)
      | Inr True \<Rightarrow> if active then slide_commands conn payload s else (None, s))"

definition process_backup :: "real \<Rightarrow> bool \<Rightarrow> bool \<Rightarrow> string \<Rightarrow> json \<Rightarrow> bstate stmt" where
  "process_backup now active conn topic payload s =
     (if startswith topic (mqtt_topic_prefix @ ''timer/'') then timer_topic now payload s
      else if startswith topic (mqtt_topic_prefix @ ''presenter/'') then presenter_topic payload s
      else if startswith topic (mqtt_topic_prefix @ ''announcement/'') then announcement_topic payload s
      else if startswith topic (mqtt_topic_prefix @ ''heartbeat/'') then heartbeat_topic_backup now payload s
      else if startswith topic (mqtt_topic_prefix @ ''control/'') then control_topic_backup active conn payload s
      else (None, s))"

text \<open>
  \<^verbatim>\<open>on_mqtt_message\<close> of backup.py (181-226); the payload is \<open>None\<close> when decoding
  raises. Every exception is logged and dropped.
\<close>

definition on_mqtt_message_backup :: "real \<Rightarrow> string \<Rightarrow> json option \<Rightarrow> backup_sys \<Rightarrow> backup_sys" where
  "on_mqtt_message_backup now topic raw sys =
     (case raw of
        None \<Rightarrow> sys
      | Some payload \<Rightarrow>
          sys\<lparr>bk_state := snd (process_backup now (is_active sys) (bk_ppt_connected sys)
                                  topic payload (bk_state sys))\<rparr>)"

text \<open>
  The reconciliation pull of \<^verbatim>\<open>MainMonitor.run\<close> (503-509): \<^verbatim>\<open>STATE[key] = main_state[key]\<close>
  for each of eight keys that the fetched value holds. \<open>state_store\<close> is the assignment
  \<^verbatim>\<open>STATE[key] = v\<close>; the loop calls it with these eight keys only.
\<close>

definition sync_keys :: "string list" where
  "sync_keys = [''current_presenter'', ''current_topic'', ''timer_seconds'', ''timer_running'',
                ''announcement'', ''announcement_visible'', ''current_slide'', ''total_slides'']"

definition state_store :: "string \<Rightarrow> json \<Rightarrow> 'a pstate_scheme \<Rightarrow> 'a pstate_scheme" where
  "state_store key v s =
     (if key = ''current_presenter'' then s\<lparr>current_presenter := v\<rparr>
      else if key = ''current_topic'' then s\<lparr>current_topic := v\<rparr>
      else if key = ''timer_seconds'' then s\<lparr>timer_seconds := v\<rparr>
      else if key = ''timer_running'' then s\<lparr>timer_running := v\<rparr>
      else if key = ''announcement'' then s\<lparr>announcement := v\<rparr>
      else if key = ''announcement_visible'' then s\<lparr>announcement_visible := v\<rparr>
      else if key = ''current_slide'' then s\<lparr>current_slide := v\<rparr>
      else if key = ''total_slides'' then s\<lparr>total_slides := v\<rparr>
      else s)"

fun sync_loop :: "string list \<Rightarrow> json \<Rightarrow> 'a pstate_scheme stmt" where
  "sync_loop [] main_state s = (None, s)"
| "sync_loop (key # keys) main_state s =
     (case store_if_present key main_state (state_store key) s of
        (Some e, s1) \<Rightarrow> (Some e, s1)
      | (None, s1) \<Rightarrow> sync_loop keys main_state s1)"

definition sync_from_main :: "json \<Rightarrow> 'a pstate_scheme stmt" where
  "sync_from_main main_state = sync_loop sync_keys main_state"

text \<open>
  What \<^verbatim>\<open>requests.get\<close> gave: a RequestException, or a response with its status code and
  its body as \<^verbatim>\<open>response.json()\<close> decodes it (\<open>None\<close> when that raises).
\<close>

datatype http_result = RequestFailed | Response int "json option"

definition fetch_state :: "http_result \<Rightarrow> bstate \<Rightarrow> bstate" where
  "fetch_state resp s =
     (case resp of
        RequestFailed \<Rightarrow> s
      | Response code body \<Rightarrow>
          if code = 200 then
            (case body of None \<Rightarrow> s | Some main_state \<Rightarrow> snd (sync_from_main main_state s))
          else s)"

definition heartbeat_message :: "string \<Rightarrow> real \<Rightarrow> bool \<Rightarrow> mqtt_msg" where
  "heartbeat_message dev now active =
     (mqtt_topic_prefix @ ''heartbeat/'' @ dev,
      JObj [(''timestamp'', JFloat now), (''role'', JStr ''BACKUP''),
            (''status'', JStr (if active then ''ACTIVE'' else ''STANDBY''))])"

definition set_main_status :: "string \<Rightarrow> backup_sys \<Rightarrow> backup_sys" where
  "set_main_status v sys =
     sys\<lparr>bk_state := (bk_state sys)\<lparr>device_status := (device_status (bk_state sys))(''main'' \<mapsto> v)\<rparr>\<rparr>"

text \<open>
  One pass of the loop of \<^verbatim>\<open>MainMonitor.run\<close> (475-512), run every
  \<^verbatim>\<open>backup_check_interval\<close> seconds: the heartbeat, the liveness check and the
  reconciliation pull. The readings of \<^verbatim>\<open>time.time()\<close> within one pass are taken as the one
  instant \<open>now\<close>. \<^verbatim>\<open>failover_signal\<close> is connected to \<^verbatim>\<open>window.activate_backup\<close> (442); the
  slot is run where the signal is emitted. An exception of the pull is caught by the
  loop, inside or outside the inner \<^verbatim>\<open>try\<close>, and leaves what was stored.
\<close>

definition monitor_iteration :: "real \<Rightarrow> http_result \<Rightarrow> backup_sys \<Rightarrow> backup_sys" where
  "monitor_iteration now resp sys =
     (let sys1 = sys\<lparr>bk_published := bk_published sys @
                        [heartbeat_message (device_id sys) now (is_active sys)]\<rparr>;
          time_since_heartbeat = now - main_last_heartbeat (bk_state sys1);
          sys2 = (if time_since_heartbeat > failover_timeout
                  then set_main_status ''OFFLINE''
                         (if \<not> is_active sys1 then activate_backup now sys1 else sys1)
                  else set_main_status ''ONLINE'' sys1)
      in if device_status (bk_state sys2) ''main'' = Some ''ONLINE'' \<and> \<not> is_active sys2
         then sys2\<lparr>bk_state := fetch_state resp (bk_state sys2)\<rparr>
         else sys2)"

text \<open>
  What happens to the backup process: a bus message arrives, the monitor loop makes a
  pass, the window refreshes, or the operator presses one of the two buttons.
\<close>

datatype backup_event =
    MqttMessage real string "json option"
  | MonitorCheck real http_result
  | UiRefresh real
  | TakeoverClicked real
  | StandbyClicked real

fun backup_step :: "backup_event \<Rightarrow> backup_sys \<Rightarrow> backup_sys" where
  "backup_step (MqttMessage now topic raw) sys = on_mqtt_message_backup now topic raw sys"
| "backup_step (MonitorCheck now resp) sys = monitor_iteration now resp sys"
| "backup_step (UiRefresh now) sys = sys\<lparr>bk_state := update_ui now (bk_state sys)\<rparr>"
| "backup_step (TakeoverClicked now) sys = activate_backup now sys"
| "backup_step (StandbyClicked now) sys = deactivate_backup now sys"

fun backup_run :: "backup_event list \<Rightarrow> backup_sys \<Rightarrow> backup_sys" where
  "backup_run [] sys = sys"
| "backup_run (e # es) sys = backup_run es (backup_step e sys)"



text \<open>A bus message that the backup's handler takes for a heartbeat of the main process.\<close>

definition is_main_heartbeat :: "backup_event \<Rightarrow> bool" where
  "is_main_heartbeat e =
     (case e of
        MqttMessage now topic (Some payload) \<Rightarrow>
          startswith topic (mqtt_topic_prefix @ ''heartbeat/'')
          \<and> key_is ''role'' ''MAIN'' payload = Inr True
      | _ \<Rightarrow> False)"

text \<open>The dictionary \<^verbatim>\<open>STATE\<close> as backup.py creates it at time \<open>t0\<close> (42-65).\<close>

definition initial_backup_state :: "real \<Rightarrow> bstate" where
  "initial_backup_state t0 =
     \<lparr>current_presenter = JStr ''No presenter'',
      current_topic = JStr ''Welcome to the Conference'',
      timer_seconds = JInt 600,
      timer_running = JBool False,
      timer_end_time = None,
      announcement = JStr [],
      announcement_visible = JBool False,
      current_slide = JInt 1,
      total_slides = JInt 30,
      device_status = [''main'' \<mapsto> ''ONLINE'', ''backup'' \<mapsto> ''ONLINE'', ''moderator'' \<mapsto> ''UNKNOWN''],
      system_health = JObj [(''cpu'', JInt 0), (''memory'', JInt 0), (''disk'', JInt 0),
                            (''network'', JStr ''OK'')],
      connected_clients = 0,
      main_last_heartbeat = t0\<rparr>"

definition initial_backup :: "string \<Rightarrow> real \<Rightarrow> backup_sys" where
  "initial_backup dev t0 =
     \<lparr>bk_state = initial_backup_state t0, is_active = False, device_id = dev,
      bk_ppt_connected = False, bk_published = []\<rparr>"

section \<open>Values used to state the properties\<close>

text \<open>
  The main process after start-up: \<^verbatim>\<open>main()\<close> connects the PowerPoint controller
  (\<^verbatim>\<open>powerpoint_enabled\<close> is true), nobody is connected and nothing is published yet.
\<close>

definition initial_main :: "nat main_sys" where
  "initial_main =
     \<lparr>app_state = initial_state, app_ppt_connected = True, websocket_connections = [],
      app_published = []\<rparr>"

text \<open>Send outcomes: every send succeeds; only the send to one session raises.\<close>

definition never_fails :: "'w \<Rightarrow> bool" where
  "never_fails w = False"

definition fails_only :: "'w \<Rightarrow> 'w \<Rightarrow> bool" where
  "fails_only bad w = (w = bad)"

text \<open>The value a key has after a pull: the fetched one when the object holds the key.\<close>

definition fetched_or :: "(string \<times> json) list \<Rightarrow> string \<Rightarrow> json \<Rightarrow> json" where
  "fetched_or kvs k old = (case map_of kvs k of None \<Rightarrow> old | Some v \<Rightarrow> v)"

text \<open>
  A message the handlers take for a relative slide step: a decoded payload on the
  control topic whose \<^verbatim>\<open>command\<close> is \<^verbatim>\<open>next_slide\<close> or \<^verbatim>\<open>previous_slide\<close>.
\<close>

definition is_slide_step :: "string \<Rightarrow> json option \<Rightarrow> bool" where
  "is_slide_step topic raw =
     (case raw of
        None \<Rightarrow> False
      | Some payload \<Rightarrow>
          startswith topic (mqtt_topic_prefix @ ''control/'')
          \<and> (py_getitem payload ''command'' = Inr (JStr ''next_slide'')
               \<or> py_getitem payload ''command'' = Inr (JStr ''previous_slide'')))"




section \<open>Facts about the building blocks\<close>

lemma startswith_longer:
  assumes "startswith s p" and "startswith s q" and "length p \<le> length q"
  shows "take (length p) q = p"
proof -
  have "take (length p) q = take (length p) (take (length q) s)"
    using assms(2) by (simp add: startswith_def)
  also have "\<dots> = take (length p) s"
    using assms(3) by (simp add: min_def)
  finally show ?thesis using assms(1) by (simp add: startswith_def)
qed

text \<open>A topic under \<^verbatim>\<open>conference/control/\<close> reaches the last branch of the chain.\<close>

lemma control_not_timer:
  "startswith topic (mqtt_topic_prefix @ ''control/'') \<Longrightarrow>
   \<not> startswith topic (mqtt_topic_prefix @ ''timer/'')"
  using startswith_longer [of topic "mqtt_topic_prefix @ ''timer/''" "mqtt_topic_prefix @ ''control/''"]
  by (auto simp: mqtt_topic_prefix_def)

lemma control_not_presenter:
  "startswith topic (mqtt_topic_prefix @ ''control/'') \<Longrightarrow>
   \<not> startswith topic (mqtt_topic_prefix @ ''presenter/'')"
  using startswith_longer [of topic "mqtt_topic_prefix @ ''control/''" "mqtt_topic_prefix @ ''presenter/''"]
  by (auto simp: mqtt_topic_prefix_def)

lemma control_not_announcement:
  "startswith topic (mqtt_topic_prefix @ ''control/'') \<Longrightarrow>
   \<not> startswith topic (mqtt_topic_prefix @ ''announcement/'')"
  using startswith_longer [of topic "mqtt_topic_prefix @ ''control/''" "mqtt_topic_prefix @ ''announcement/''"]
  by (auto simp: mqtt_topic_prefix_def)

lemma control_not_heartbeat:
  "startswith topic (mqtt_topic_prefix @ ''control/'') \<Longrightarrow>
   \<not> startswith topic (mqtt_topic_prefix @ ''heartbeat/'')"
  using startswith_longer [of topic "mqtt_topic_prefix @ ''control/''" "mqtt_topic_prefix @ ''heartbeat/''"]
  by (auto simp: mqtt_topic_prefix_def)

lemmas control_only = control_not_timer control_not_presenter control_not_announcement
  control_not_heartbeat

lemma process_backup_control:
  "startswith topic (mqtt_topic_prefix @ ''control/'') \<Longrightarrow>
   process_backup now active conn topic payload s = control_topic_backup active conn payload s"
  by (simp add: process_backup_def control_only)

section \<open>Slide bounds\<close>

text \<open>
  C5. On a connected controller, with \<^verbatim>\<open>total_slides\<close> the integer \<open>T\<close>: \<^verbatim>\<open>goto_slide(n)\<close>
  for an integer \<open>n\<close> outside \<open>[1, T]\<close> returns \<^verbatim>\<open>False\<close> and leaves the state (so
  \<^verbatim>\<open>current_slide\<close>) as it was; for \<open>1 \<le> n \<le> T\<close> it returns \<^verbatim>\<open>True\<close> and stores \<open>n\<close> as
  \<^verbatim>\<open>current_slide\<close>, changing nothing else. The method is the same in app.py and
  backup.py; the statement holds for the state of either.
\<close>

theorem goto_slide_bounds:
  assumes "total_slides s = JInt T"
  shows "(n < 1 \<or> T < n \<longrightarrow> goto_slide True (JInt n) s = (False, s))
       \<and> (1 \<le> n \<and> n \<le> T \<longrightarrow>
            goto_slide True (JInt n) s = (True, s\<lparr>current_slide := JInt n\<rparr>))"
  using assms by (auto simp: goto_slide_def py_le_def split: bool.splits)

theorem goto_slide_bounds_witness:
  "total_slides initial_state = JInt 30
   \<and> goto_slide True (JInt 31) initial_state = (False, initial_state)
   \<and> goto_slide True (JInt 0) initial_state = (False, initial_state)
   \<and> current_slide (snd (goto_slide True (JInt 5) initial_state)) = JInt 5
   \<and> fst (goto_slide True (JInt 5) initial_state)"
proof -
  have t: "total_slides initial_state = JInt 30" by (simp add: initial_state_def)
  show ?thesis
    using t goto_slide_bounds [OF t, of 31] goto_slide_bounds [OF t, of 0]
      goto_slide_bounds [OF t, of 5]
    by simp
qed

section \<open>Slide commands on the standby\<close>

text \<open>
  C10. While the backup is in STANDBY (\<^verbatim>\<open>is_active\<close> false), a message on the control
  topic, whatever its payload (\<^verbatim>\<open>next_slide\<close>, \<^verbatim>\<open>previous_slide\<close>, \<^verbatim>\<open>goto_slide\<close> or anything
  else, decodable or not), leaves every global of the process as it was; in particular
  \<^verbatim>\<open>current_slide\<close> is unchanged.
\<close>

theorem standby_ignores_control:
  assumes "\<not> is_active sys" and "startswith topic (mqtt_topic_prefix @ ''control/'')"
  shows "on_mqtt_message_backup now topic raw sys = sys"
  using assms
  by (cases raw)
     (auto simp: on_mqtt_message_backup_def process_backup_control control_topic_backup_def
           split: sum.splits bool.splits)

theorem standby_ignores_control_witness:
  "\<not> is_active (initial_backup ''backup-1'' 0)
   \<and> startswith ''conference/control/slide'' (mqtt_topic_prefix @ ''control/'')
   \<and> on_mqtt_message_backup 3 ''conference/control/slide''
        (Some (JObj [(''command'', JStr ''next_slide'')])) (initial_backup ''backup-1'' 0)
      = initial_backup ''backup-1'' 0
   \<and> current_slide (bk_state (on_mqtt_message_backup 3 ''conference/control/slide''
        (Some (JObj [(''command'', JStr ''goto_slide''), (''slide'', JInt 7)]))
        (initial_backup ''backup-1'' 0))) = JInt 1"
proof -
  have a: "\<not> is_active (initial_backup ''backup-1'' 0)"
    by (simp add: initial_backup_def)
  have t: "startswith ''conference/control/slide'' (mqtt_topic_prefix @ ''control/'')"
    by (simp add: startswith_def mqtt_topic_prefix_def)
  have i: "current_slide (bk_state (initial_backup ''backup-1'' 0)) = JInt 1"
    by (simp add: initial_backup_def initial_backup_state_def)
  show ?thesis
    using a t i standby_ignores_control [OF a t]
    by simp
qed

section \<open>Reconciliation pull\<close>

lemma store_if_present_obj:
  "store_if_present k (JObj kvs) upd s =
     (None, case map_of kvs k of None \<Rightarrow> s | Some v \<Rightarrow> upd v s)"
proof (cases "map_of kvs k")
  case None
  then have "k \<notin> set (map fst kvs)" by (simp add: map_of_eq_None_iff)
  with None show ?thesis by (simp add: store_if_present_def)
next
  case (Some v)
  then have "k \<in> set (map fst kvs)" by (metis map_of_eq_None_iff option.distinct(1) set_map)
  with Some show ?thesis by (simp add: store_if_present_def)
qed

lemma py_getitem_Inr:
  "py_getitem p k = Inr v \<longleftrightarrow> (\<exists>kvs. p = JObj kvs \<and> map_of kvs k = Some v)"
  by (cases p) (auto split: option.splits)

lemma store_if_present_getitem:
  "store_if_present k p upd s =
     (case py_getitem p k of
        Inr v \<Rightarrow> (None, upd v s)
      | Inl e \<Rightarrow> (case py_in k p of Inl e' \<Rightarrow> (Some e', s) | Inr True \<Rightarrow> (Some e, s) | Inr False \<Rightarrow> (None, s)))"
proof (cases p)
  case (JObj kvs)
  show ?thesis
  proof (cases "map_of kvs k")
    case None
    then have "k \<notin> set (map fst kvs)" by (simp add: map_of_eq_None_iff)
    with None JObj show ?thesis by (simp add: store_if_present_def)
  next
    case (Some v)
    then have "k \<in> set (map fst kvs)" by (metis map_of_eq_None_iff option.distinct(1) set_map)
    with Some JObj show ?thesis by (simp add: store_if_present_def)
  qed
qed (simp_all add: store_if_present_def split: bool.splits)

lemma snd_store_if_present:
  "snd (store_if_present k p upd s) = (case py_getitem p k of Inr v \<Rightarrow> upd v s | Inl e \<Rightarrow> s)"
  by (simp add: store_if_present_getitem split: sum.splits bool.splits)

lemma store_if_present_not_obj:
  "(\<And>kvs. p \<noteq> JObj kvs) \<Longrightarrow> snd (store_if_present k p upd s) = s"
  by (cases p) (auto simp: snd_store_if_present)

lemma sync_from_main_obj:
  "sync_from_main (JObj kvs) s =
     (None, s\<lparr>current_presenter := fetched_or kvs ''current_presenter'' (current_presenter s),
               current_topic := fetched_or kvs ''current_topic'' (current_topic s),
               timer_seconds := fetched_or kvs ''timer_seconds'' (timer_seconds s),
               timer_running := fetched_or kvs ''timer_running'' (timer_running s),
               announcement := fetched_or kvs ''announcement'' (announcement s),
               announcement_visible := fetched_or kvs ''announcement_visible'' (announcement_visible s),
               current_slide := fetched_or kvs ''current_slide'' (current_slide s),
               total_slides := fetched_or kvs ''total_slides'' (total_slides s)\<rparr>)"
proof -
  have 1: "store_if_present ''current_presenter'' (JObj kvs) (state_store ''current_presenter'') s
           = (None, s\<lparr>current_presenter := fetched_or kvs ''current_presenter'' (current_presenter s)\<rparr>)" for s :: "'a pstate_scheme"
    by (simp add: store_if_present_obj fetched_or_def state_store_def split: option.splits)
  have 2: "store_if_present ''current_topic'' (JObj kvs) (state_store ''current_topic'') s
           = (None, s\<lparr>current_topic := fetched_or kvs ''current_topic'' (current_topic s)\<rparr>)" for s :: "'a pstate_scheme"
    by (simp add: store_if_present_obj fetched_or_def state_store_def split: option.splits)
  have 3: "store_if_present ''timer_seconds'' (JObj kvs) (state_store ''timer_seconds'') s
           = (None, s\<lparr>timer_seconds := fetched_or kvs ''timer_seconds'' (timer_seconds s)\<rparr>)" for s :: "'a pstate_scheme"
    by (simp add: store_if_present_obj fetched_or_def state_store_def split: option.splits)
  have 4: "store_if_present ''timer_running'' (JObj kvs) (state_store ''timer_running'') s
           = (None, s\<lparr>timer_running := fetched_or kvs ''timer_running'' (timer_running s)\<rparr>)" for s :: "'a pstate_scheme"
    by (simp add: store_if_present_obj fetched_or_def state_store_def split: option.splits)
  have 5: "store_if_present ''announcement'' (JObj kvs) (state_store ''announcement'') s
           = (None, s\<lparr>announcement := fetched_or kvs ''announcement'' (announcement s)\<rparr>)" for s :: "'a pstate_scheme"
    by (simp add: store_if_present_obj fetched_or_def state_store_def split: option.splits)
  have 6: "store_if_present ''announcement_visible'' (JObj kvs) (state_store ''announcement_visible'') s
           = (None, s\<lparr>announcement_visible := fetched_or kvs ''announcement_visible'' (announcement_visible s)\<rparr>)" for s :: "'a pstate_scheme"
    by (simp add: store_if_present_obj fetched_or_def state_store_def split: option.splits)
  have 7: "store_if_present ''current_slide'' (JObj kvs) (state_store ''current_slide'') s
           = (None, s\<lparr>current_slide := fetched_or kvs ''current_slide'' (current_slide s)\<rparr>)" for s :: "'a pstate_scheme"
    by (simp add: store_if_present_obj fetched_or_def state_store_def split: option.splits)
  have 8: "store_if_present ''total_slides'' (JObj kvs) (state_store ''total_slides'') s
           = (None, s\<lparr>total_slides := fetched_or kvs ''total_slides'' (total_slides s)\<rparr>)" for s :: "'a pstate_scheme"
    by (simp add: store_if_present_obj fetched_or_def state_store_def split: option.splits)
  show ?thesis
    by (simp add: sync_from_main_def sync_keys_def 1 2 3 4 5 6 7 8)
qed

lemma sync_loop_not_obj:
  "(\<And>kvs. m \<noteq> JObj kvs) \<Longrightarrow> snd (sync_loop ks m s) = s"
proof (induction ks arbitrary: s)
  case Nil
  then show ?case by simp
next
  case (Cons k ks)
  have "snd (store_if_present k m (state_store k) s) = s"
    using Cons.prems by (rule store_if_present_not_obj)
  then show ?case
    using Cons.IH [OF Cons.prems, of s]
    by (cases "store_if_present k m (state_store k) s") (auto split: option.splits)
qed

lemma sync_from_main_frame:
  fixes s :: bstate
  shows "device_status (snd (sync_from_main m s)) = device_status s
       \<and> system_health (snd (sync_from_main m s)) = system_health s
       \<and> timer_end_time (snd (sync_from_main m s)) = timer_end_time s
       \<and> connected_clients (snd (sync_from_main m s)) = connected_clients s
       \<and> main_last_heartbeat (snd (sync_from_main m s)) = main_last_heartbeat s"
proof (cases "\<exists>kvs. m = JObj kvs")
  case True
  then show ?thesis by (auto simp: sync_from_main_obj)
next
  case False
  then have "snd (sync_from_main m s) = s"
    unfolding sync_from_main_def by (intro sync_loop_not_obj) auto
  then show ?thesis by simp
qed

lemma set_main_status_simps:
  "is_active (set_main_status v sys) = is_active sys"
  "bk_published (set_main_status v sys) = bk_published sys"
  "device_id (set_main_status v sys) = device_id sys"
  "bk_ppt_connected (set_main_status v sys) = bk_ppt_connected sys"
  "bk_state (set_main_status v sys)
     = (bk_state sys)\<lparr>device_status := (device_status (bk_state sys))(''main'' \<mapsto> v)\<rparr>"
  by (simp_all add: set_main_status_def)

lemma activate_backup_simps:
  "is_active (activate_backup now sys)"
  "bk_state (activate_backup now sys) = bk_state sys"
  "device_id (activate_backup now sys) = device_id sys"
  "bk_published (activate_backup now sys)
     = bk_published sys @ [failover_message (device_id sys) now ''TAKEOVER'']"
  "bk_ppt_connected (activate_backup now sys) = True"
  by (simp_all add: activate_backup_def powerpoint_enabled_def Let_def)

lemma monitor_iteration_state:
  "bk_state (monitor_iteration now resp sys) =
     (if now - main_last_heartbeat (bk_state sys) > failover_timeout
      then (bk_state sys)\<lparr>device_status := (device_status (bk_state sys))(''main'' \<mapsto> ''OFFLINE'')\<rparr>
      else if is_active sys
      then (bk_state sys)\<lparr>device_status := (device_status (bk_state sys))(''main'' \<mapsto> ''ONLINE'')\<rparr>
      else fetch_state resp
             ((bk_state sys)\<lparr>device_status := (device_status (bk_state sys))(''main'' \<mapsto> ''ONLINE'')\<rparr>))"
  by (simp add: monitor_iteration_def Let_def set_main_status_simps activate_backup_simps)

text \<open>
  C9. The pull of the monitor loop copies from the fetched main snapshot at most the
  eight fields \<^verbatim>\<open>current_presenter\<close>, \<^verbatim>\<open>current_topic\<close>, \<^verbatim>\<open>timer_seconds\<close>,
  \<^verbatim>\<open>timer_running\<close>, \<^verbatim>\<open>announcement\<close>, \<^verbatim>\<open>announcement_visible\<close>, \<^verbatim>\<open>current_slide\<close> and
  \<^verbatim>\<open>total_slides\<close>: for a fetched JSON object each of them takes the fetched value when
  the object holds its key and keeps its local value when it does not. For every
  fetched value, \<^verbatim>\<open>device_status\<close>, \<^verbatim>\<open>system_health\<close>, \<^verbatim>\<open>main_last_heartbeat\<close>,
  \<^verbatim>\<open>timer_end_time\<close> and \<^verbatim>\<open>connected_clients\<close> are left as they were. A pass of the loop
  pulls only when the backup is not active and the pass has just marked the main
  process ONLINE; otherwise it changes nothing of the state but \<^verbatim>\<open>device_status["main"]\<close>.
\<close>

theorem reconciliation_pull_frame:
  fixes s :: bstate
  shows "sync_from_main (JObj kvs) s =
     (None, s\<lparr>current_presenter := fetched_or kvs ''current_presenter'' (current_presenter s),
               current_topic := fetched_or kvs ''current_topic'' (current_topic s),
               timer_seconds := fetched_or kvs ''timer_seconds'' (timer_seconds s),
               timer_running := fetched_or kvs ''timer_running'' (timer_running s),
               announcement := fetched_or kvs ''announcement'' (announcement s),
               announcement_visible := fetched_or kvs ''announcement_visible'' (announcement_visible s),
               current_slide := fetched_or kvs ''current_slide'' (current_slide s),
               total_slides := fetched_or kvs ''total_slides'' (total_slides s)\<rparr>)
   \<and> (map_of kvs ''current_presenter'' = None \<longrightarrow>
        current_presenter (snd (sync_from_main (JObj kvs) s)) = current_presenter s)
   \<and> (map_of kvs ''current_topic'' = None \<longrightarrow>
        current_topic (snd (sync_from_main (JObj kvs) s)) = current_topic s)
   \<and> (map_of kvs ''timer_seconds'' = None \<longrightarrow>
        timer_seconds (snd (sync_from_main (JObj kvs) s)) = timer_seconds s)
   \<and> (map_of kvs ''timer_running'' = None \<longrightarrow>
        timer_running (snd (sync_from_main (JObj kvs) s)) = timer_running s)
   \<and> (map_of kvs ''announcement'' = None \<longrightarrow>
        announcement (snd (sync_from_main (JObj kvs) s)) = announcement s)
   \<and> (map_of kvs ''announcement_visible'' = None \<longrightarrow>
        announcement_visible (snd (sync_from_main (JObj kvs) s)) = announcement_visible s)
   \<and> (map_of kvs ''current_slide'' = None \<longrightarrow>
        current_slide (snd (sync_from_main (JObj kvs) s)) = current_slide s)
   \<and> (map_of kvs ''total_slides'' = None \<longrightarrow>
        total_slides (snd (sync_from_main (JObj kvs) s)) = total_slides s)
   \<and> device_status (snd (sync_from_main m s)) = device_status s
   \<and> system_health (snd (sync_from_main m s)) = system_health s
   \<and> main_last_heartbeat (snd (sync_from_main m s)) = main_last_heartbeat s
   \<and> timer_end_time (snd (sync_from_main m s)) = timer_end_time s
   \<and> connected_clients (snd (sync_from_main m s)) = connected_clients s
   \<and> fetch_state (Response 200 (Some m)) s = snd (sync_from_main m s)
   \<and> bk_state (monitor_iteration now resp sys) =
       (if now - main_last_heartbeat (bk_state sys) > failover_timeout
        then (bk_state sys)\<lparr>device_status := (device_status (bk_state sys))(''main'' \<mapsto> ''OFFLINE'')\<rparr>
        else if is_active sys
        then (bk_state sys)\<lparr>device_status := (device_status (bk_state sys))(''main'' \<mapsto> ''ONLINE'')\<rparr>
        else fetch_state resp
               ((bk_state sys)\<lparr>device_status := (device_status (bk_state sys))(''main'' \<mapsto> ''ONLINE'')\<rparr>))"
proof -
  have obj: "sync_from_main (JObj kvs) s =
     (None, s\<lparr>current_presenter := fetched_or kvs ''current_presenter'' (current_presenter s),
               current_topic := fetched_or kvs ''current_topic'' (current_topic s),
               timer_seconds := fetched_or kvs ''timer_seconds'' (timer_seconds s),
               timer_running := fetched_or kvs ''timer_running'' (timer_running s),
               announcement := fetched_or kvs ''announcement'' (announcement s),
               announcement_visible := fetched_or kvs ''announcement_visible'' (announcement_visible s),
               current_slide := fetched_or kvs ''current_slide'' (current_slide s),
               total_slides := fetched_or kvs ''total_slides'' (total_slides s)\<rparr>)"
    by (rule sync_from_main_obj)
  have absent:
    "map_of kvs ''current_presenter'' = None \<longrightarrow>
       current_presenter (snd (sync_from_main (JObj kvs) s)) = current_presenter s"
    "map_of kvs ''current_topic'' = None \<longrightarrow>
       current_topic (snd (sync_from_main (JObj kvs) s)) = current_topic s"
    "map_of kvs ''timer_seconds'' = None \<longrightarrow>
       timer_seconds (snd (sync_from_main (JObj kvs) s)) = timer_seconds s"
    "map_of kvs ''timer_running'' = None \<longrightarrow>
       timer_running (snd (sync_from_main (JObj kvs) s)) = timer_running s"
    "map_of kvs ''announcement'' = None \<longrightarrow>
       announcement (snd (sync_from_main (JObj kvs) s)) = announcement s"
    "map_of kvs ''announcement_visible'' = None \<longrightarrow>
       announcement_visible (snd (sync_from_main (JObj kvs) s)) = announcement_visible s"
    "map_of kvs ''current_slide'' = None \<longrightarrow>
       current_slide (snd (sync_from_main (JObj kvs) s)) = current_slide s"
    "map_of kvs ''total_slides'' = None \<longrightarrow>
       total_slides (snd (sync_from_main (JObj kvs) s)) = total_slides s"
    by (simp_all add: sync_from_main_obj fetched_or_def)
  have fetch: "fetch_state (Response 200 (Some m)) s = snd (sync_from_main m s)"
    by (simp add: fetch_state_def)
  show ?thesis
    using obj absent sync_from_main_frame [of m s] fetch
      monitor_iteration_state [of now resp sys]
    by blast
qed

theorem reconciliation_pull_frame_witness:
  "map_of [(''current_slide'', JInt 4), (''device_status'', JObj [])] ''current_presenter'' = None
   \<and> current_presenter (snd (sync_from_main
         (JObj [(''current_slide'', JInt 4), (''device_status'', JObj [])])
         (initial_backup_state 0))) = JStr ''No presenter''
   \<and> current_slide (snd (sync_from_main
         (JObj [(''current_slide'', JInt 4), (''device_status'', JObj [])])
         (initial_backup_state 0))) = JInt 4
   \<and> device_status (snd (sync_from_main
         (JObj [(''current_slide'', JInt 4), (''device_status'', JObj [])])
         (initial_backup_state 0))) = device_status (initial_backup_state 0)
   \<and> main_last_heartbeat (snd (sync_from_main
         (JObj [(''current_slide'', JInt 4), (''device_status'', JObj [])])
         (initial_backup_state 0))) = 0"
  using reconciliation_pull_frame
    [of "[(''current_slide'', JInt 4), (''device_status'', JObj [])]" "initial_backup_state 0"
        "JObj [(''current_slide'', JInt 4), (''device_status'', JObj [])]"]
  by (simp add: fetched_or_def initial_backup_state_def)

section \<open>The announcement topic\<close>

lemma announcement_not_timer:
  "startswith topic (mqtt_topic_prefix @ ''announcement/'') \<Longrightarrow>
   \<not> startswith topic (mqtt_topic_prefix @ ''timer/'')"
  using startswith_longer [of topic "mqtt_topic_prefix @ ''timer/''" "mqtt_topic_prefix @ ''announcement/''"]
  by (auto simp: mqtt_topic_prefix_def)

lemma announcement_not_presenter:
  "startswith topic (mqtt_topic_prefix @ ''announcement/'') \<Longrightarrow>
   \<not> startswith topic (mqtt_topic_prefix @ ''presenter/'')"
  using startswith_longer [of topic "mqtt_topic_prefix @ ''presenter/''" "mqtt_topic_prefix @ ''announcement/''"]
  by (auto simp: mqtt_topic_prefix_def)

lemma process_main_announcement:
  "startswith topic (mqtt_topic_prefix @ ''announcement/'') \<Longrightarrow>
   process_main now conn topic payload s = announcement_topic payload s"
  by (simp add: process_main_def announcement_not_timer announcement_not_presenter)

lemma process_backup_announcement:
  "startswith topic (mqtt_topic_prefix @ ''announcement/'') \<Longrightarrow>
   process_backup now active conn topic payload s = announcement_topic payload s"
  by (simp add: process_backup_def announcement_not_timer announcement_not_presenter)

lemma app_state_on_mqtt_message:
  "app_state (fst (on_mqtt_message fails now topic (Some payload) sys))
     = snd (process_main now (app_ppt_connected sys) topic payload (app_state sys))"
  by (simp add: on_mqtt_message_def split: prod.splits option.splits)

lemma bk_state_on_mqtt_message_backup:
  "bk_state (on_mqtt_message_backup now topic (Some payload) sys)
     = snd (process_backup now (is_active sys) (bk_ppt_connected sys) topic payload (bk_state sys))"
  by (simp add: on_mqtt_message_backup_def)

text \<open>
  The claim that every decoded payload on the announcement topic sets
  \<^verbatim>\<open>announcement_visible\<close> fails: the empty object \<^verbatim>\<open>{}\<close> decodes and leaves the flag false,
  because the store stands under the test \<^verbatim>\<open>"message" in payload\<close>.
\<close>

theorem announcement_without_message_counterexample:
  "announcement_visible (app_state (fst (on_mqtt_message never_fails 0
      ''conference/announcement/new'' (Some (JObj [])) initial_main))) = JBool False"
  by (simp add: on_mqtt_message_def process_main_def announcement_topic_def
        store_if_present_def startswith_def mqtt_topic_prefix_def initial_main_def
        initial_state_def broadcast_state_update_def)

text \<open>
  C8, as amended. A decoded payload on the announcement topic sets
  \<^verbatim>\<open>announcement_visible\<close> to true exactly when it is a JSON object that holds the key
  \<^verbatim>\<open>message\<close> (\<open>py_getitem\<close> returns a value only then); the value is stored as
  \<^verbatim>\<open>announcement\<close> and nothing else of the state changes. Every other decoded payload
  leaves the whole state as it was. This holds for the handler of app.py and for the
  handler of backup.py.
\<close>

theorem announcement_visible_iff_message:
  assumes "startswith topic (mqtt_topic_prefix @ ''announcement/'')"
  shows "app_state (fst (on_mqtt_message fails now topic (Some payload) sys)) =
           (case py_getitem payload ''message'' of
              Inr v \<Rightarrow> (app_state sys)\<lparr>announcement := v, announcement_visible := JBool True\<rparr>
            | Inl e \<Rightarrow> app_state sys)
       \<and> bk_state (on_mqtt_message_backup now topic (Some payload) bsys) =
           (case py_getitem payload ''message'' of
              Inr v \<Rightarrow> (bk_state bsys)\<lparr>announcement := v, announcement_visible := JBool True\<rparr>
            | Inl e \<Rightarrow> bk_state bsys)"
  using assms
  by (simp add: app_state_on_mqtt_message bk_state_on_mqtt_message_backup
        process_main_announcement process_backup_announcement announcement_topic_def
        snd_store_if_present)

theorem announcement_visible_iff_message_witness:
  "startswith ''conference/announcement/new'' (mqtt_topic_prefix @ ''announcement/'')
   \<and> announcement_visible (app_state (fst (on_mqtt_message never_fails 0
        ''conference/announcement/new'' (Some (JObj [(''message'', JStr ''Break'')])) initial_main)))
      = JBool True
   \<and> announcement (bk_state (on_mqtt_message_backup 0
        ''conference/announcement/new'' (Some (JObj [(''message'', JStr ''Break'')]))
        (initial_backup ''backup-1'' 0)))
      = JStr ''Break''"
proof -
  have t: "startswith ''conference/announcement/new'' (mqtt_topic_prefix @ ''announcement/'')"
    by (simp add: startswith_def mqtt_topic_prefix_def)
  show ?thesis
    using t announcement_visible_iff_message [OF t, of never_fails 0
        "JObj [(''message'', JStr ''Break'')]" initial_main "initial_backup ''backup-1'' 0"]
    by simp
qed

section \<open>The timer\<close>

lemma start_timer_numeric:
  assumes "num_of (timer_seconds (app_state sys)) = Some d"
  shows "start_timer t0 sys =
     (None, sys\<lparr>app_state := (app_state sys)\<lparr>timer_running := JBool True,
                                               timer_end_time := Some (t0 + d)\<rparr>,
                app_published := app_published sys @
                  [(mqtt_topic_prefix @ ''timer/control'', JObj [(''running'', JBool True)])]\<rparr>)"
  using assms by (simp add: start_timer_def py_float_add_def Let_def)

lemma update_ui_running:
  assumes "py_bool (timer_running s)" and "timer_end_time s = Some d" and "d \<noteq> 0"
  shows "update_ui now s = s\<lparr>timer_seconds := JInt (max 0 (py_int (d - now)))\<rparr>"
  using assms by (simp add: update_ui_def)



text \<open>
  The claim that \<^verbatim>\<open>stop_timer\<close> stores the time remaining at the moment of the call fails:
  the method reads no clock and does not assign \<^verbatim>\<open>timer_seconds\<close>. A timer of 600 seconds
  started at time 1000 (deadline 1600) and stopped at time 1100, with no refresh of the
  window in between, is left with \<^verbatim>\<open>timer_seconds\<close> = 600, not 500. With the window
  refreshed at 1100 and the timer stopped at 1100.0625, it is left with the 500 that the
  refresh stored, not with the 499.9375 that remain at the stop.
\<close>

theorem stop_timer_counterexample:
  "timer_end_time (app_state (snd (start_timer 1000 initial_main))) = Some 1600
   \<and> timer_seconds (app_state (stop_timer (snd (start_timer 1000 initial_main)))) = JInt 600
   \<and> num_of (JInt 600) \<noteq> Some (max 0 (1600 - 1100))
   \<and> timer_seconds (app_state (stop_timer ((snd (start_timer 1000 initial_main))
        \<lparr>app_state := update_ui 1100 (app_state (snd (start_timer 1000 initial_main)))\<rparr>)))
      = JInt 500
   \<and> num_of (JInt 500) \<noteq> Some (max 0 (1600 - 17601 / 16))"
  by (simp add: start_timer_def stop_timer_def update_ui_def py_float_add_def py_int_def
        initial_main_def initial_state_def Let_def)

text \<open>
  C3, as amended. \<^verbatim>\<open>stop_timer\<close> sets \<^verbatim>\<open>timer_running\<close> to false, clears
  \<^verbatim>\<open>timer_end_time\<close>, publishes \<^verbatim>\<open>{"running": false}\<close> and leaves \<^verbatim>\<open>timer_seconds\<close> as it
  finds it. What it finds is the remaining time as the last refresh of the window
  stored it: after a refresh at time \<open>t\<close> of a running timer with non-zero deadline
  \<open>d\<close>, stopping leaves \<^verbatim>\<open>timer_seconds\<close> = \<open>max 0 (int (d - t))\<close>.
\<close>

theorem stop_timer_effect:
  "app_state (stop_timer sys)
     = (app_state sys)\<lparr>timer_running := JBool False, timer_end_time := None\<rparr>
   \<and> timer_seconds (app_state (stop_timer sys)) = timer_seconds (app_state sys)
   \<and> app_published (stop_timer sys)
     = app_published sys @ [(mqtt_topic_prefix @ ''timer/control'', JObj [(''running'', JBool False)])]
   \<and> (py_bool (timer_running (app_state sys)) \<and> timer_end_time (app_state sys) = Some d \<and> d \<noteq> 0
        \<longrightarrow> timer_seconds (app_state (stop_timer (sys\<lparr>app_state := update_ui t (app_state sys)\<rparr>)))
            = JInt (max 0 (py_int (d - t))))"
  by (simp add: stop_timer_def update_ui_running)

theorem stop_timer_effect_witness:
  "py_bool (timer_running (app_state (snd (start_timer 1000 initial_main))))
   \<and> timer_end_time (app_state (snd (start_timer 1000 initial_main))) = Some 1600
   \<and> (1600::real) \<noteq> 0
   \<and> timer_seconds (app_state (stop_timer ((snd (start_timer 1000 initial_main))
        \<lparr>app_state := update_ui 1100 (app_state (snd (start_timer 1000 initial_main)))\<rparr>)))
      = JInt 500
   \<and> timer_end_time (app_state (stop_timer (snd (start_timer 1000 initial_main)))) = None"
proof -
  have n: "num_of (timer_seconds (app_state initial_main)) = Some 600"
    by (simp add: initial_main_def initial_state_def)
  have r: "py_bool (timer_running (app_state (snd (start_timer 1000 initial_main))))"
    and e: "timer_end_time (app_state (snd (start_timer 1000 initial_main))) = Some 1600"
    by (simp_all add: start_timer_numeric [OF n])
  show ?thesis
    using r e stop_timer_effect [of "snd (start_timer 1000 initial_main)" 1600 1100]
      stop_timer_effect [of "snd (start_timer 1000 initial_main)"]
    by (simp add: py_int_def)
qed




section \<open>Broadcast to the viewer sessions\<close>

text \<open>
  When no send fails, every session is sent the snapshot and the list is unchanged.
  When the send to a session fails, the session is removed while the loop is walking
  the same list, so the session that follows it moves into the position just visited
  and is passed over: it stays connected and is not sent the snapshot.
\<close>

lemma broadcast_loop_no_failure:
  "(\<And>w. w \<in> set conns \<Longrightarrow> \<not> fails w) \<Longrightarrow>
   broadcast_loop fails i conns sent = (conns, sent @ drop i conns)"
proof (induction fails i conns sent rule: broadcast_loop.induct)
  case (1 fails i conns sent)
  show ?case
  proof (cases "i < length conns")
    case True
    then have nf: "\<not> fails (conns ! i)" using "1.prems" by simp
    have "broadcast_loop fails i conns sent = broadcast_loop fails (i + 1) conns (sent @ [conns ! i])"
      using True nf by (subst broadcast_loop.simps) (simp add: Let_def)
    also have "\<dots> = (conns, (sent @ [conns ! i]) @ drop (i + 1) conns)"
      using "1.IH"(2) [OF True refl nf] "1.prems" by simp
    finally show ?thesis using True by (simp add: Cons_nth_drop_Suc)
  next
    case False
    then show ?thesis by (subst broadcast_loop.simps) simp
  qed
qed

lemma broadcast_loop_skips_head:
  "0 < i \<Longrightarrow> b \<notin> set xs \<Longrightarrow> b \<notin> set sent \<Longrightarrow>
   (\<exists>cs. fst (broadcast_loop fails i (b # xs) sent) = b # cs)
   \<and> b \<notin> set (snd (broadcast_loop fails i (b # xs) sent))"
proof (induction fails i "b # xs" sent arbitrary: xs rule: broadcast_loop.induct)
  case (1 fails i sent)
  show ?case
  proof (cases "i < length (b # xs)")
    case False
    then show ?thesis using 1 by (subst (1 2) broadcast_loop.simps) simp
  next
    case True
    define w where "w = (b # xs) ! i"
    have wx: "w \<in> set xs" using True "1.prems"(1) by (cases i) (auto simp: w_def)
    then have wb: "w \<noteq> b" using "1.prems"(2) by auto
    show ?thesis
    proof (cases "fails w")
      case f: True
      have step: "broadcast_loop fails i (b # xs) sent
                  = broadcast_loop fails (i + 1) (b # remove1 w xs) sent"
        using True f wx wb by (subst broadcast_loop.simps) (simp add: Let_def w_def [symmetric])
      have nb: "b \<notin> set (remove1 w xs)" using "1.prems"(2) by (meson notin_set_remove1)
      have "(\<exists>cs. fst (broadcast_loop fails (i + 1) (b # remove1 w xs) sent) = b # cs)
            \<and> b \<notin> set (snd (broadcast_loop fails (i + 1) (b # remove1 w xs) sent))"
        using "1.hyps"(1) [of w "remove1 w xs"] True f wx wb nb "1.prems"(3)
        by (simp add: w_def)
      then show ?thesis unfolding step .
    next
      case nf: False
      have step: "broadcast_loop fails i (b # xs) sent
                  = broadcast_loop fails (i + 1) (b # xs) (sent @ [w])"
        using True nf by (subst broadcast_loop.simps) (simp add: Let_def w_def [symmetric])
      have "(\<exists>cs. fst (broadcast_loop fails (i + 1) (b # xs) (sent @ [w])) = b # cs)
            \<and> b \<notin> set (snd (broadcast_loop fails (i + 1) (b # xs) (sent @ [w])))"
        using "1.hyps"(2) [of w] True nf wb "1.prems"(2,3)
        by (simp add: w_def)
      then show ?thesis unfolding step .
    qed
  qed
qed

lemma broadcast_skips_next:
  assumes "fails a" and "a \<noteq> b" and "a \<notin> set rest" and "b \<notin> set rest"
  shows "b \<in> set (fst (broadcast_state_update fails (a # b # rest)))
       \<and> b \<notin> set (snd (broadcast_state_update fails (a # b # rest)))"
proof -
  have "broadcast_state_update fails (a # b # rest) = broadcast_loop fails 1 (b # rest) []"
    using assms(1) by (simp add: broadcast_state_update_def broadcast_loop.simps [of fails 0])
  moreover have "(\<exists>cs. fst (broadcast_loop fails 1 (b # rest) []) = b # cs)
       \<and> b \<notin> set (snd (broadcast_loop fails 1 (b # rest) []))"
    using assms(4) by (intro broadcast_loop_skips_head) simp_all
  ultimately show ?thesis by auto
qed

text \<open>
  C6. The claim says that after a send failure on one session every other connected
  session still receives the broadcast. The loop does not do that. With the two sessions
  0 and 1 connected and the send to 0 failing, session 0 is pruned and nothing is sent
  to session 1; with four sessions and the send to 1 failing, session 2 is passed over.
\<close>

theorem broadcast_skips_session_after_failure:
  "broadcast_state_update (fails_only 0) [0, 1 :: nat] = ([1], [])
   \<and> broadcast_state_update (fails_only 1) [0, 1, 2, 3 :: nat] = ([0, 2, 3], [0, 3])"
  by (simp add: broadcast_state_update_def fails_only_def)

section \<open>Replaying a bus message\<close>

lemma snd_py_seq_store:
  "snd (py_seq (store_if_present k p upd) g s) =
     (case py_getitem p k of
        Inr v \<Rightarrow> snd (g (upd v s))
      | Inl e \<Rightarrow> (case py_in k p of Inr False \<Rightarrow> snd (g s) | _ \<Rightarrow> s))"
  by (simp add: py_seq_def store_if_present_getitem split: sum.splits bool.splits)

lemma snd_timer_running_stmt:
  "snd (timer_running_stmt now p s) =
     (case py_getitem p ''running'' of
        Inl e \<Rightarrow> s
      | Inr r \<Rightarrow>
          if py_bool r then
            (case num_of (timer_seconds s) of
               None \<Rightarrow> s\<lparr>timer_running := r\<rparr>
             | Some d \<Rightarrow> s\<lparr>timer_running := r, timer_end_time := Some (now + d)\<rparr>)
          else s\<lparr>timer_running := r, timer_end_time := None\<rparr>)"
proof (cases p)
  case (JObj kvs)
  show ?thesis
  proof (cases "map_of kvs ''running''")
    case None
    then have "''running'' \<notin> set (map fst kvs)" by (simp add: map_of_eq_None_iff)
    with None JObj show ?thesis by (simp add: timer_running_stmt_def)
  next
    case (Some v)
    then have "''running'' \<in> set (map fst kvs)"
      by (metis map_of_eq_None_iff option.distinct(1) set_map)
    with Some JObj show ?thesis
      by (simp add: timer_running_stmt_def py_float_add_def Let_def split: option.splits)
  qed
qed (simp_all add: timer_running_stmt_def split: bool.splits)

lemma py_in_not_obj_getitem:
  "py_getitem p k = Inr v \<Longrightarrow> py_getitem p k' = Inl e \<Longrightarrow> py_in k' p = Inr False"
  by (cases p) (auto split: option.splits simp: map_of_eq_None_iff)

lemma timer_topic_idem:
  "snd (timer_topic now p (snd (timer_topic now p s))) = snd (timer_topic now p s)"
  by (cases "py_getitem p ''seconds''"; cases "py_getitem p ''running''"; cases "py_in ''seconds'' p")
     (auto simp: timer_topic_def snd_py_seq_store snd_timer_running_stmt
           split: sum.splits bool.splits option.splits)

lemma presenter_topic_idem:
  "snd (presenter_topic p (snd (presenter_topic p s))) = snd (presenter_topic p s)"
  by (cases "py_getitem p ''name''"; cases "py_getitem p ''topic''"; cases "py_in ''name'' p")
     (auto simp: presenter_topic_def snd_py_seq_store snd_store_if_present
           split: sum.splits bool.splits option.splits)

lemma announcement_topic_idem:
  "snd (announcement_topic p (snd (announcement_topic p s))) = snd (announcement_topic p s)"
  by (simp add: announcement_topic_def snd_store_if_present split: sum.splits)

lemma heartbeat_topic_main_idem:
  "snd (heartbeat_topic_main p (snd (heartbeat_topic_main p s))) = snd (heartbeat_topic_main p s)"
  by (auto simp: heartbeat_topic_main_def split: sum.splits bool.splits)

lemma goto_slide_idem:
  "snd (goto_slide conn n (snd (goto_slide conn n s))) = snd (goto_slide conn n s)"
  by (auto simp: goto_slide_def split: sum.splits bool.splits)

lemma control_topic_main_idem:
  assumes "py_getitem p ''command'' \<noteq> Inr (JStr ''next_slide'')"
    and "py_getitem p ''command'' \<noteq> Inr (JStr ''previous_slide'')"
  shows "snd (control_topic_main conn p (snd (control_topic_main conn p s)))
         = snd (control_topic_main conn p s)"
  using assms
  by (auto simp: control_topic_main_def slide_commands_def goto_slide_idem
           split: sum.splits bool.splits)


lemma process_main_idem:
  assumes "\<not> is_slide_step topic (Some p)"
  shows "snd (process_main now conn topic p (snd (process_main now conn topic p s)))
         = snd (process_main now conn topic p s)"
proof -
  have c: "snd (control_topic_main conn p (snd (control_topic_main conn p s)))
           = snd (control_topic_main conn p s)"
    if "startswith topic (mqtt_topic_prefix @ ''control/'')"
    using that assms by (intro control_topic_main_idem) (auto simp: is_slide_step_def)
  show ?thesis
    using c
    by (simp add: process_main_def timer_topic_idem presenter_topic_idem
          announcement_topic_idem heartbeat_topic_main_idem)
qed

lemma on_mqtt_message_connected:
  "app_ppt_connected (fst (on_mqtt_message fails now topic raw sys)) = app_ppt_connected sys"
  by (simp add: on_mqtt_message_def split: option.splits prod.splits)

lemma next_slide_int:
  "current_slide s = JInt c \<Longrightarrow> total_slides s = JInt T \<Longrightarrow>
   next_slide True s = (True, s\<lparr>current_slide := JInt (min (c + 1) T)\<rparr>)"
  by (simp add: next_slide_def py_lt_def Let_def min_def)

lemma previous_slide_int:
  "current_slide s = JInt c \<Longrightarrow>
   previous_slide True s = (True, s\<lparr>current_slide := JInt (max (c - 1) 1)\<rparr>)"
  by (simp add: previous_slide_def py_lt_def Let_def max_def)

text \<open>
  The claim that handling any message twice gives the state that handling it once
  gives fails for the relative slide commands: from slide 1 of 30 on the connected main
  controller, one \<^verbatim>\<open>next_slide\<close> message leaves slide 2 and the same message handled again
  leaves slide 3.
\<close>

theorem replay_counterexample:
  "current_slide (app_state (fst (on_mqtt_message never_fails 0 ''conference/control/slide''
      (Some (JObj [(''command'', JStr ''next_slide'')])) initial_main))) = JInt 2
   \<and> current_slide (app_state (fst (on_mqtt_message never_fails 0 ''conference/control/slide''
      (Some (JObj [(''command'', JStr ''next_slide'')]))
      (fst (on_mqtt_message never_fails 0 ''conference/control/slide''
         (Some (JObj [(''command'', JStr ''next_slide'')])) initial_main))))) = JInt 3"
  by (simp add: app_state_on_mqtt_message on_mqtt_message_connected process_main_def
        control_topic_main_def slide_commands_def next_slide_def py_lt_def Let_def
        startswith_def mqtt_topic_prefix_def initial_main_def initial_state_def)

text \<open>
  C7, as amended. For every message that is not a control-topic \<^verbatim>\<open>next_slide\<close> or
  \<^verbatim>\<open>previous_slide\<close> command (every topic, every payload, decodable or not) and every
  fixed receipt time, the handler of app.py applied twice leaves the same \<^verbatim>\<open>STATE\<close> as
  applied once, whatever the sends of the two broadcasts do; this includes the timer
  topic, where the deadline is recomputed as \<open>now + timer_seconds\<close>. The two excluded
  commands are relative steps: on a connected controller with integer slide numbers,
  each \<^verbatim>\<open>next_slide\<close> stores \<open>min (c + 1) T\<close> and each \<^verbatim>\<open>previous_slide\<close> stores
  \<open>max (c - 1) 1\<close>.
\<close>

theorem replay_idempotent_except_steps:
  "(\<not> is_slide_step topic raw \<longrightarrow>
      app_state (fst (on_mqtt_message fails' now topic raw
                        (fst (on_mqtt_message fails now topic raw sys))))
      = app_state (fst (on_mqtt_message fails now topic raw sys)))
   \<and> (startswith topic (mqtt_topic_prefix @ ''control/'') \<and> app_ppt_connected sys
        \<and> current_slide (app_state sys) = JInt c \<and> total_slides (app_state sys) = JInt T \<longrightarrow>
        (py_getitem payload ''command'' = Inr (JStr ''next_slide'') \<longrightarrow>
           app_state (fst (on_mqtt_message fails now topic (Some payload) sys))
           = (app_state sys)\<lparr>current_slide := JInt (min (c + 1) T)\<rparr>)
        \<and> (py_getitem payload ''command'' = Inr (JStr ''previous_slide'') \<longrightarrow>
           app_state (fst (on_mqtt_message fails now topic (Some payload) sys))
           = (app_state sys)\<lparr>current_slide := JInt (max (c - 1) 1)\<rparr>))"
proof -
  have idem: "app_state (fst (on_mqtt_message fails' now topic raw
                        (fst (on_mqtt_message fails now topic raw sys))))
      = app_state (fst (on_mqtt_message fails now topic raw sys))"
    if h: "\<not> is_slide_step topic raw"
  proof (cases raw)
    case None
    then show ?thesis by (simp add: on_mqtt_message_def)
  next
    case (Some p)
    then show ?thesis
      using h by (simp add: app_state_on_mqtt_message on_mqtt_message_connected process_main_idem)
  qed
  have step: "(py_getitem payload ''command'' = Inr (JStr ''next_slide'') \<longrightarrow>
           app_state (fst (on_mqtt_message fails now topic (Some payload) sys))
           = (app_state sys)\<lparr>current_slide := JInt (min (c + 1) T)\<rparr>)
        \<and> (py_getitem payload ''command'' = Inr (JStr ''previous_slide'') \<longrightarrow>
           app_state (fst (on_mqtt_message fails now topic (Some payload) sys))
           = (app_state sys)\<lparr>current_slide := JInt (max (c - 1) 1)\<rparr>)"
    if h: "startswith topic (mqtt_topic_prefix @ ''control/'')" "app_ppt_connected sys"
      "current_slide (app_state sys) = JInt c" "total_slides (app_state sys) = JInt T"
  proof -
    have p: "process_main now True topic payload (app_state sys)
             = control_topic_main True payload (app_state sys)"
      using h(1) by (simp add: process_main_def control_only)
    have i: "py_in ''command'' payload = Inr True" if "py_getitem payload ''command'' = Inr v" for v
      using that by (cases payload) (auto split: option.splits dest: map_of_SomeD intro: rev_image_eqI)
    show ?thesis
      using h(2-4) i
      by (auto simp: app_state_on_mqtt_message p control_topic_main_def slide_commands_def
            next_slide_int previous_slide_int)
  qed
  show ?thesis using idem step by blast
qed


theorem replay_idempotent_except_steps_witness:
  "\<not> is_slide_step ''conference/timer/control''
        (Some (JObj [(''seconds'', JInt 300), (''running'', JBool True)]))
   \<and> app_state (fst (on_mqtt_message never_fails 50 ''conference/timer/control''
          (Some (JObj [(''seconds'', JInt 300), (''running'', JBool True)]))
          (fst (on_mqtt_message never_fails 50 ''conference/timer/control''
             (Some (JObj [(''seconds'', JInt 300), (''running'', JBool True)])) initial_main))))
      = app_state (fst (on_mqtt_message never_fails 50 ''conference/timer/control''
          (Some (JObj [(''seconds'', JInt 300), (''running'', JBool True)])) initial_main))
   \<and> timer_end_time (app_state (fst (on_mqtt_message never_fails 50 ''conference/timer/control''
          (Some (JObj [(''seconds'', JInt 300), (''running'', JBool True)])) initial_main)))
      = Some 350
   \<and> startswith ''conference/control/slide'' (mqtt_topic_prefix @ ''control/'')
   \<and> app_ppt_connected initial_main
   \<and> current_slide (app_state initial_main) = JInt 1
   \<and> total_slides (app_state initial_main) = JInt 30
   \<and> py_getitem (JObj [(''command'', JStr ''next_slide'')]) ''command'' = Inr (JStr ''next_slide'')
   \<and> current_slide (app_state (fst (on_mqtt_message never_fails 0 ''conference/control/slide''
          (Some (JObj [(''command'', JStr ''next_slide'')])) initial_main))) = JInt 2"
proof -
  have a: "\<not> is_slide_step ''conference/timer/control''
        (Some (JObj [(''seconds'', JInt 300), (''running'', JBool True)]))"
    by (simp add: is_slide_step_def startswith_def mqtt_topic_prefix_def)
  have e: "timer_end_time (app_state (fst (on_mqtt_message never_fails 50 ''conference/timer/control''
          (Some (JObj [(''seconds'', JInt 300), (''running'', JBool True)])) initial_main)))
      = Some 350"
    by (simp add: app_state_on_mqtt_message process_main_def timer_topic_def
          snd_py_seq_store snd_timer_running_stmt startswith_def mqtt_topic_prefix_def)
  have t: "startswith ''conference/control/slide'' (mqtt_topic_prefix @ ''control/'')"
    by (simp add: startswith_def mqtt_topic_prefix_def)
  have c: "app_ppt_connected initial_main" "current_slide (app_state initial_main) = JInt 1"
    "total_slides (app_state initial_main) = JInt 30"
    by (simp_all add: initial_main_def initial_state_def)
  have g: "py_getitem (JObj [(''command'', JStr ''next_slide'')]) ''command'' = Inr (JStr ''next_slide'')"
    by simp
  show ?thesis
    using a e t c g
      replay_idempotent_except_steps [where topic = "''conference/timer/control''"
        and raw = "Some (JObj [(''seconds'', JInt 300), (''running'', JBool True)])"
        and fails = never_fails and fails' = never_fails and now = 50 and sys = initial_main]
      replay_idempotent_except_steps [where topic = "''conference/control/slide''"
        and sys = initial_main and c = 1 and T = 30
        and payload = "JObj [(''command'', JStr ''next_slide'')]" and fails = never_fails
        and now = 0]
    by simp
qed

section \<open>The role of the backup\<close>

lemma heartbeat_not_timer:
  "startswith topic (mqtt_topic_prefix @ ''heartbeat/'') \<Longrightarrow>
   \<not> startswith topic (mqtt_topic_prefix @ ''timer/'')"
  using startswith_longer [of topic "mqtt_topic_prefix @ ''timer/''" "mqtt_topic_prefix @ ''heartbeat/''"]
  by (auto simp: mqtt_topic_prefix_def)

lemma heartbeat_not_presenter:
  "startswith topic (mqtt_topic_prefix @ ''heartbeat/'') \<Longrightarrow>
   \<not> startswith topic (mqtt_topic_prefix @ ''presenter/'')"
  using startswith_longer [of topic "mqtt_topic_prefix @ ''presenter/''" "mqtt_topic_prefix @ ''heartbeat/''"]
  by (auto simp: mqtt_topic_prefix_def)

lemma heartbeat_not_announcement:
  "startswith topic (mqtt_topic_prefix @ ''heartbeat/'') \<Longrightarrow>
   \<not> startswith topic (mqtt_topic_prefix @ ''announcement/'')"
  using startswith_longer [of topic "mqtt_topic_prefix @ ''heartbeat/''" "mqtt_topic_prefix @ ''announcement/''"]
  by (auto simp: mqtt_topic_prefix_def)

lemma on_mqtt_message_backup_frame:
  "is_active (on_mqtt_message_backup now topic raw sys) = is_active sys"
  "device_id (on_mqtt_message_backup now topic raw sys) = device_id sys"
  "bk_ppt_connected (on_mqtt_message_backup now topic raw sys) = bk_ppt_connected sys"
  "bk_published (on_mqtt_message_backup now topic raw sys) = bk_published sys"
  by (simp_all add: on_mqtt_message_backup_def split: option.splits)

lemma main_heartbeat_effect:
  assumes "is_main_heartbeat (MqttMessage now topic (Some payload))"
  shows "on_mqtt_message_backup now topic (Some payload) sys =
           sys\<lparr>bk_state := (bk_state sys)\<lparr>main_last_heartbeat := now,
                   device_status := (device_status (bk_state sys))(''main'' \<mapsto> ''ONLINE'')\<rparr>\<rparr>"
  using assms
  by (simp add: is_main_heartbeat_def on_mqtt_message_backup_def process_backup_def
        heartbeat_topic_backup_def heartbeat_not_timer heartbeat_not_presenter
        heartbeat_not_announcement)

lemma monitor_iteration_active:
  "is_active (monitor_iteration now resp sys)
     \<longleftrightarrow> is_active sys \<or> now - main_last_heartbeat (bk_state sys) > failover_timeout"
  by (simp add: monitor_iteration_def Let_def set_main_status_simps activate_backup_simps)

lemma backup_step_stays_active:
  assumes "is_active sys" and "\<And>t. e \<noteq> StandbyClicked t"
  shows "is_active (backup_step e sys)"
  using assms
  by (cases e)
     (auto simp: on_mqtt_message_backup_frame monitor_iteration_active activate_backup_simps)

lemma backup_run_stays_active:
  "is_active sys \<Longrightarrow> (\<And>t. StandbyClicked t \<notin> set es) \<Longrightarrow> is_active (backup_run es sys)"
proof (induction es arbitrary: sys)
  case Nil
  then show ?case by simp
next
  case (Cons e es)
  have "is_active (backup_step e sys)"
    using Cons.prems by (intro backup_step_stays_active) auto
  then show ?case using Cons by simp
qed

text \<open>
  C2. A heartbeat of the main process received by the backup stores the receipt time
  as \<^verbatim>\<open>main_last_heartbeat\<close>, sets \<^verbatim>\<open>device_status["main"]\<close> to ONLINE and changes nothing
  else; in particular \<^verbatim>\<open>is_active\<close> is as before. From every state in which the backup is
  ACTIVE, every event other than the operator's \<^verbatim>\<open>deactivate_backup\<close> (a bus message
  on any topic, a pass of the monitor, a refresh of the window, a takeover click)
  leaves it ACTIVE, and so does every run of such events; \<^verbatim>\<open>deactivate_backup\<close> sets it
  to STANDBY.
\<close>

theorem no_auto_demotion:
  "(is_main_heartbeat (MqttMessage now topic (Some payload)) \<longrightarrow>
      on_mqtt_message_backup now topic (Some payload) sys =
        sys\<lparr>bk_state := (bk_state sys)\<lparr>main_last_heartbeat := now,
                device_status := (device_status (bk_state sys))(''main'' \<mapsto> ''ONLINE'')\<rparr>\<rparr>
      \<and> is_active (on_mqtt_message_backup now topic (Some payload) sys) = is_active sys)
   \<and> (is_active sys \<and> (\<forall>t. e \<noteq> StandbyClicked t) \<longrightarrow> is_active (backup_step e sys))
   \<and> (is_active sys \<and> (\<forall>t. StandbyClicked t \<notin> set es) \<longrightarrow> is_active (backup_run es sys))
   \<and> \<not> is_active (backup_step (StandbyClicked t) sys)"
  using main_heartbeat_effect [of now topic payload sys]
    backup_step_stays_active [of sys e] backup_run_stays_active [of sys es]
  by (auto simp: on_mqtt_message_backup_frame deactivate_backup_def Let_def)


theorem no_auto_demotion_witness:
  "is_active (activate_backup 20 (initial_backup ''backup-1'' 0))
   \<and> is_main_heartbeat (MqttMessage 25 ''conference/heartbeat/main-1''
        (Some (JObj [(''timestamp'', JFloat 25), (''role'', JStr ''MAIN''), (''status'', JStr ''ACTIVE'')])))
   \<and> is_active (on_mqtt_message_backup 25 ''conference/heartbeat/main-1''
        (Some (JObj [(''timestamp'', JFloat 25), (''role'', JStr ''MAIN''), (''status'', JStr ''ACTIVE'')]))
        (activate_backup 20 (initial_backup ''backup-1'' 0)))
   \<and> main_last_heartbeat (bk_state (on_mqtt_message_backup 25 ''conference/heartbeat/main-1''
        (Some (JObj [(''timestamp'', JFloat 25), (''role'', JStr ''MAIN''), (''status'', JStr ''ACTIVE'')]))
        (activate_backup 20 (initial_backup ''backup-1'' 0)))) = 25
   \<and> (\<forall>t. MonitorCheck 30 RequestFailed \<noteq> StandbyClicked t)
   \<and> is_active (backup_step (MonitorCheck 30 RequestFailed)
        (activate_backup 20 (initial_backup ''backup-1'' 0)))
   \<and> (\<forall>t. StandbyClicked t \<notin> set [MonitorCheck 30 RequestFailed, UiRefresh 31])
   \<and> is_active (backup_run [MonitorCheck 30 RequestFailed, UiRefresh 31]
        (activate_backup 20 (initial_backup ''backup-1'' 0)))
   \<and> \<not> is_active (backup_step (StandbyClicked 40)
        (activate_backup 20 (initial_backup ''backup-1'' 0)))"
proof -
  have a: "is_active (activate_backup 20 (initial_backup ''backup-1'' 0))"
    by (simp add: activate_backup_simps)
  have h: "is_main_heartbeat (MqttMessage 25 ''conference/heartbeat/main-1''
        (Some (JObj [(''timestamp'', JFloat 25), (''role'', JStr ''MAIN''), (''status'', JStr ''ACTIVE'')])))"
    by (simp add: is_main_heartbeat_def key_is_def startswith_def mqtt_topic_prefix_def)
  have e: "\<forall>t. MonitorCheck 30 RequestFailed \<noteq> StandbyClicked t"
    "\<forall>t. StandbyClicked t \<notin> set [MonitorCheck 30 RequestFailed, UiRefresh 31]"
    by simp_all
  show ?thesis
    using a h e
      no_auto_demotion [where now = 25 and topic = "''conference/heartbeat/main-1''"
        and payload = "JObj [(''timestamp'', JFloat 25), (''role'', JStr ''MAIN''), (''status'', JStr ''ACTIVE'')]"
        and sys = "activate_backup 20 (initial_backup ''backup-1'' 0)"
        and e = "MonitorCheck 30 RequestFailed"
        and es = "[MonitorCheck 30 RequestFailed, UiRefresh 31]" and t = 40]
    by simp
qed

section \<open>The failover trigger\<close>


















lemma monitor_iteration_frame:
  "device_id (monitor_iteration now resp sys) = device_id sys"
  "bk_ppt_connected (monitor_iteration now resp sys)
     = (bk_ppt_connected sys
        \<or> (now - main_last_heartbeat (bk_state sys) > failover_timeout \<and> \<not> is_active sys))"
  by (auto simp: monitor_iteration_def Let_def set_main_status_simps activate_backup_simps)



end
